theory Spec2Isabelle
  imports Main
begin

section \<open>Python values and exceptions\<close>

text \<open>
  The exceptions that the functions of \<^verbatim>\<open>blues/reporters.py\<close> can end with. The first
  four are raised by the module's own statements (\<^verbatim>\<open>raise ValueError\<close>, the operator
  \<^verbatim>\<open>%\<close> with a zero divisor, \<^verbatim>\<open>+\<close> or a call with unsuitable arguments, a local
  variable read before assignment); \<open>AttributeError\<close> is the one exception the module
  catches; \<open>External\<close> stands for whatever a wrapped library raises.
\<close>

datatype error =
    ValueError string
  | ZeroDivisionError
  | TypeError
  | UnboundLocalError
  | AttributeError
  | External string

text \<open>Python's \<^verbatim>\<open>a % b\<close> on integers: floor modulus, \<^verbatim>\<open>ZeroDivisionError\<close> for \<open>b = 0\<close>.\<close>

definition py_mod :: "int \<Rightarrow> int \<Rightarrow> error + int" where
  "py_mod a b = (if b = 0 then Inl ZeroDivisionError else Inr (a mod b))"

text \<open>Python's \<^verbatim>\<open>x in xs\<close> on a list or tuple: a left-to-right scan comparing with \<^verbatim>\<open>==\<close>.\<close>

fun py_in :: "'a \<Rightarrow> 'a list \<Rightarrow> bool" where
  "py_in x [] = False"
| "py_in x (y # ys) = (if x = y then True else py_in x ys)"

section \<open>Reporting cadence\<close>

text \<open>
  All three constructors end with the same statements:
  \<^verbatim>\<open>
  self.frame_indices = frame_indices
  if self.frame_indices:
      self.frame_indices = [x - 1 for x in frame_indices]
  \<close>
  A list is true when it is not empty.
\<close>

definition store_frame_indices :: "int list \<Rightarrow> int list" where
  "store_frame_indices frame_indices =
     (if frame_indices \<noteq> [] then map (\<lambda>x. x - 1) frame_indices else frame_indices)"

text \<open>
  All three \<^verbatim>\<open>describeNextReport\<close> methods compute \<^verbatim>\<open>steps\<close> by the same statements:
  \<^verbatim>\<open>
  if self.frame_indices:
      if simulation.currentStep in self.frame_indices:
          steps = 1
      else:
          steps = -1
  if not self.frame_indices:
      steps_left = simulation.currentStep % self._reportInterval
      steps = self._reportInterval - steps_left
  \<close>
\<close>

definition next_steps :: "int list \<Rightarrow> int \<Rightarrow> int \<Rightarrow> error + int" where
  "next_steps frame_indices reportInterval currentStep =
     (if frame_indices \<noteq> [] then
        (if py_in currentStep frame_indices then Inr 1 else Inr (- 1))
      else
        (case py_mod currentStep reportInterval of
           Inl e \<Rightarrow> Inl e
         | Inr steps_left \<Rightarrow> Inr (reportInterval - steps_left)))"

text \<open>The cadence descriptor \<^verbatim>\<open>(steps, pos, vel, frc, ene)\<close>.\<close>

type_synonym descriptor = "int \<times> bool \<times> bool \<times> bool \<times> bool"

definition steps_of :: "error + descriptor \<Rightarrow> error + int" where
  "steps_of d = (case d of Inl e \<Rightarrow> Inl e | Inr t \<Rightarrow> Inr (fst t))"


section \<open>The wrapped objects\<close>

text \<open>
  The reporters write through objects of other libraries: an mdtraj trajectory file, a
  logger or file-like object, a \<^verbatim>\<open>NetCDF4Traj\<close>. Such an object is modelled by the list
  of the method calls the reporter has made on it, oldest first, together with the
  attributes whose presence the reporter tests.
\<close>

datatype call =
    Write bool "string list"
      \<comment> \<open>\<^verbatim>\<open>_traj_file.write(*args, **kwargs)\<close>: whether the coordinates were passed, and the
          keyword names in insertion order\<close>
  | Flush
  | Info string
      \<comment> \<open>\<^verbatim>\<open>log.info(text)\<close>\<close>
  | Report string
      \<comment> \<open>\<^verbatim>\<open>log.report(text)\<close>, reached through \<^verbatim>\<open>self.log.info = self.log.report\<close>\<close>
  | OpenNew string nat bool bool bool bool bool bool
      \<comment> \<open>\<^verbatim>\<open>NetCDF4Traj.open_new(fname, atom, uses_pbc, crds, vels, frcs, protocolWork=,
          alchemicalLambda=)\<close>\<close>
  | AddCellLengthsAngles
  | AddCoordinates
  | AddVelocities
  | AddForces
  | AddProtocolWork
  | AddAlchemicalLambda
  | AddTime

text \<open>The mdtraj trajectory file behind \<^verbatim>\<open>BLUESHDF5Reporter._traj_file\<close>.\<close>

record traj_file =
  tf_calls :: "call list"
  tf_has_flush :: bool

text \<open>
  The object behind \<^verbatim>\<open>BLUESStateDataReporter._out\<close> and \<^verbatim>\<open>.log\<close> (the constructor
  sets \<^verbatim>\<open>self.log = self._out\<close>): a logger or a file-like object.
\<close>

record log_object =
  lg_calls :: "call list"
  lg_has_info :: bool
  lg_has_report :: bool
  lg_has_flush :: bool

text \<open>
  The operations of other libraries that \<^verbatim>\<open>report\<close> invokes. Each one may raise; what it
  does on a given call is an input of the model, \<open>fail op = Some e\<close> meaning that the
  operation raises \<open>e\<close> on this call.
\<close>

datatype ext_op =
    Op_initialize          \<comment> \<open>\<^verbatim>\<open>self._initialize(simulation)\<close> (mdtraj)\<close>
  | Op_initializeConstants \<comment> \<open>\<^verbatim>\<open>self._initializeConstants(simulation)\<close> (OpenMM)\<close>
  | Op_checkForErrors      \<comment> \<open>\<^verbatim>\<open>self._checkForErrors(simulation, state)\<close>\<close>
  | Op_state               \<comment> \<open>the accessors of \<^verbatim>\<open>state\<close>, \<^verbatim>\<open>simulation.integrator\<close> and
                               \<^verbatim>\<open>simulation.topology\<close>, with their unit conversions\<close>
  | Op_write               \<comment> \<open>\<^verbatim>\<open>_traj_file.write\<close>\<close>
  | Op_info                \<comment> \<open>\<^verbatim>\<open>log.info\<close> or \<^verbatim>\<open>log.report\<close>\<close>
  | Op_flush               \<comment> \<open>\<^verbatim>\<open>flush\<close> of the file or stream\<close>
  | Op_open_new            \<comment> \<open>\<^verbatim>\<open>NetCDF4Traj.open_new\<close>\<close>
  | Op_add                 \<comment> \<open>the \<^verbatim>\<open>add_...\<close> methods of \<^verbatim>\<open>NetCDF4Traj\<close>\<close>

type_synonym failures = "ext_op \<Rightarrow> error option"

text \<open>What a reporter reads from \<^verbatim>\<open>simulation\<close> itself.\<close>

record simulation =
  sim_currentStep :: int
  sim_currentIter :: "int option"   \<comment> \<open>\<open>None\<close>: the attribute does not exist\<close>

section \<open>BLUESHDF5Reporter\<close>

text \<open>
  The fields that the methods of the class read. The base-class constructor (mdtraj's
  \<^verbatim>\<open>HDF5Reporter\<close>) stores \<^verbatim>\<open>reportInterval\<close> and the flags under the underscored
  names, sets \<^verbatim>\<open>_needEnergy\<close> to \<^verbatim>\<open>potentialEnergy or kineticEnergy or temperature\<close> and
  clears \<^verbatim>\<open>_is_intialized\<close>. \<open>hd_initialize_runs\<close> is not a field of the class: it
  counts the executions of \<^verbatim>\<open>self._initialize(simulation)\<close> that returned.
  \<^verbatim>\<open>atomSubset\<close> only selects rows of the arrays written and is left out.
\<close>

record hdf5_reporter =
  hd_traj_file :: traj_file
  hd_reportInterval :: int
  hd_coordinates :: bool
  hd_time :: bool
  hd_cell :: bool
  hd_potentialEnergy :: bool
  hd_kineticEnergy :: bool
  hd_temperature :: bool
  hd_velocities :: bool
  hd_needEnergy :: bool
  hd_is_intialized :: bool
  hd_protocolWork :: bool
  hd_alchemicalLambda :: bool
  hd_environment :: bool
  hd_title :: string
  hd_parameters :: "(string \<times> string) list option"
  hd_frame_indices :: "int list"
  hd_initialize_runs :: nat

text \<open>The arguments of \<^verbatim>\<open>BLUESHDF5Reporter.__init__\<close>, in the order of its signature.\<close>

definition BLUESHDF5Reporter_init ::
  "traj_file \<Rightarrow> int \<Rightarrow> string \<Rightarrow> bool \<Rightarrow> int list \<Rightarrow> bool \<Rightarrow> bool \<Rightarrow> bool \<Rightarrow> bool \<Rightarrow> bool \<Rightarrow> bool \<Rightarrow>
   bool \<Rightarrow> bool \<Rightarrow> (string \<times> string) list option \<Rightarrow> bool \<Rightarrow> hdf5_reporter" where
  "BLUESHDF5Reporter_init file reportInterval title coordinates frame_indices time cell
      temperature potentialEnergy kineticEnergy velocities protocolWork alchemicalLambda
      parameters environment =
     \<lparr> hd_traj_file = file,
       hd_reportInterval = reportInterval,
       hd_coordinates = coordinates,
       hd_time = time,
       hd_cell = cell,
       hd_potentialEnergy = potentialEnergy,
       hd_kineticEnergy = kineticEnergy,
       hd_temperature = temperature,
       hd_velocities = velocities,
       hd_needEnergy = (potentialEnergy \<or> kineticEnergy \<or> temperature),
       hd_is_intialized = False,
       hd_protocolWork = protocolWork,
       hd_alchemicalLambda = alchemicalLambda,
       hd_environment = environment,
       hd_title = title,
       hd_parameters = parameters,
       hd_frame_indices = store_frame_indices frame_indices,
       hd_initialize_runs = 0 \<rparr>"

definition BLUESHDF5Reporter_describeNextReport ::
  "hdf5_reporter \<Rightarrow> simulation \<Rightarrow> error + descriptor" where
  "BLUESHDF5Reporter_describeNextReport self simulation =
     (case next_steps (hd_frame_indices self) (hd_reportInterval self) (sim_currentStep simulation) of
        Inl e \<Rightarrow> Inl e
      | Inr steps \<Rightarrow>
          Inr (steps, hd_coordinates self, hd_velocities self, False, hd_needEnergy self))"



section \<open>NetCDF4Reporter\<close>

text \<open>
  The base-class constructor (ParmEd's \<^verbatim>\<open>NetCDFReporter\<close>) stores \<^verbatim>\<open>file\<close> as
  \<^verbatim>\<open>fname\<close> and \<^verbatim>\<open>reportInterval\<close> as \<^verbatim>\<open>_reportInterval\<close>, and sets \<^verbatim>\<open>_out\<close> to
  \<^verbatim>\<open>None\<close>. \<^verbatim>\<open>uses_pbc\<close> is first assigned by \<^verbatim>\<open>report\<close>. \<open>nc_out\<close> is the call
  list of the \<^verbatim>\<open>NetCDF4Traj\<close> held in \<^verbatim>\<open>_out\<close>. \<open>nc_open_runs\<close> is not a field of
  the class: it counts the calls of \<^verbatim>\<open>NetCDF4Traj.open_new\<close> that returned.
\<close>

record netcdf_reporter =
  nc_fname :: string
  nc_reportInterval :: int
  nc_frame_indices :: "int list"
  nc_crds :: bool
  nc_vels :: bool
  nc_frcs :: bool
  nc_protocolWork :: bool
  nc_alchemicalLambda :: bool
  nc_out :: "call list option"
  nc_uses_pbc :: "bool option"
  nc_open_runs :: nat

definition NetCDF4Reporter_init ::
  "string \<Rightarrow> int \<Rightarrow> int list \<Rightarrow> bool \<Rightarrow> bool \<Rightarrow> bool \<Rightarrow> bool \<Rightarrow> bool \<Rightarrow> netcdf_reporter" where
  "NetCDF4Reporter_init file reportInterval frame_indices crds vels frcs protocolWork
      alchemicalLambda =
     \<lparr> nc_fname = file,
       nc_reportInterval = reportInterval,
       nc_frame_indices = store_frame_indices frame_indices,
       nc_crds = crds,
       nc_vels = vels,
       nc_frcs = frcs,
       nc_protocolWork = protocolWork,
       nc_alchemicalLambda = alchemicalLambda,
       nc_out = None,
       nc_uses_pbc = None,
       nc_open_runs = 0 \<rparr>"

definition NetCDF4Reporter_describeNextReport ::
  "netcdf_reporter \<Rightarrow> simulation \<Rightarrow> error + descriptor" where
  "NetCDF4Reporter_describeNextReport self simulation =
     (case next_steps (nc_frame_indices self) (nc_reportInterval self) (sim_currentStep simulation) of
        Inl e \<Rightarrow> Inl e
      | Inr steps \<Rightarrow> Inr (steps, nc_crds self, nc_vels self, nc_frcs self, False))"





section \<open>BLUESStateDataReporter\<close>

text \<open>
  The base-class constructor (OpenMM's \<^verbatim>\<open>StateDataReporter\<close>) stores
  \<^verbatim>\<open>reportInterval\<close>, the flags, \<^verbatim>\<open>separator\<close> and \<^verbatim>\<open>totalSteps\<close> under the
  underscored names, keeps a \<^verbatim>\<open>file\<close> that is not a string as \<^verbatim>\<open>_out\<close>, clears
  \<^verbatim>\<open>_hasInitialized\<close>, \<^verbatim>\<open>_needsPositions\<close>, \<^verbatim>\<open>_needsVelocities\<close> and
  \<^verbatim>\<open>_needsForces\<close>, and sets \<^verbatim>\<open>_needEnergy\<close> to \<^verbatim>\<open>potentialEnergy or kineticEnergy or
  totalEnergy or temperature\<close>. \<open>sd_out\<close> is both \<^verbatim>\<open>self._out\<close> and \<^verbatim>\<open>self.log\<close>, one
  object. \<open>sd_initialize_runs\<close> is not a field of the class: it counts the executions
  of \<^verbatim>\<open>self._initializeConstants(simulation)\<close> that returned. \<^verbatim>\<open>systemMass\<close> and the
  two clock readings are floating-point values and are left out.
\<close>

record statedata_reporter =
  sd_out :: log_object
  sd_reportInterval :: int
  sd_frame_indices :: "int list"
  sd_title :: string
  sd_step :: bool
  sd_time :: bool
  sd_potentialEnergy :: bool
  sd_kineticEnergy :: bool
  sd_totalEnergy :: bool
  sd_temperature :: bool
  sd_volume :: bool
  sd_density :: bool
  sd_progress :: bool
  sd_remainingTime :: bool
  sd_speed :: bool
  sd_elapsedTime :: bool
  sd_separator :: string
  sd_totalSteps :: "int option"
  sd_protocolWork :: bool
  sd_alchemicalLambda :: bool
  sd_currentIter :: bool
  sd_needsPositions :: bool
  sd_needsVelocities :: bool
  sd_needsForces :: bool
  sd_needEnergy :: bool
  sd_hasInitialized :: bool
  sd_initialSteps :: int
  sd_initialize_runs :: nat

text \<open>The arguments of \<^verbatim>\<open>BLUESStateDataReporter.__init__\<close>, in the order of its signature.\<close>

definition BLUESStateDataReporter_init ::
  "log_object \<Rightarrow> int \<Rightarrow> int list \<Rightarrow> string \<Rightarrow> bool \<Rightarrow> bool \<Rightarrow> bool \<Rightarrow> bool \<Rightarrow> bool \<Rightarrow> bool \<Rightarrow> bool \<Rightarrow>
   bool \<Rightarrow> bool \<Rightarrow> bool \<Rightarrow> bool \<Rightarrow> bool \<Rightarrow> string \<Rightarrow> int option \<Rightarrow> bool \<Rightarrow> bool \<Rightarrow> bool \<Rightarrow>
   statedata_reporter" where
  "BLUESStateDataReporter_init file reportInterval frame_indices title step time
      potentialEnergy kineticEnergy totalEnergy temperature volume density progress
      remainingTime speed elapsedTime separator totalSteps protocolWork alchemicalLambda
      currentIter =
     \<lparr> sd_out = file,
       sd_reportInterval = reportInterval,
       sd_frame_indices = store_frame_indices frame_indices,
       sd_title = title,
       sd_step = step,
       sd_time = time,
       sd_potentialEnergy = potentialEnergy,
       sd_kineticEnergy = kineticEnergy,
       sd_totalEnergy = totalEnergy,
       sd_temperature = temperature,
       sd_volume = volume,
       sd_density = density,
       sd_progress = progress,
       sd_remainingTime = remainingTime,
       sd_speed = speed,
       sd_elapsedTime = elapsedTime,
       sd_separator = separator,
       sd_totalSteps = totalSteps,
       sd_protocolWork = protocolWork,
       sd_alchemicalLambda = alchemicalLambda,
       sd_currentIter = currentIter,
       sd_needsPositions = False,
       sd_needsVelocities = False,
       sd_needsForces = False,
       sd_needEnergy = (potentialEnergy \<or> kineticEnergy \<or> totalEnergy \<or> temperature),
       sd_hasInitialized = False,
       sd_initialSteps = 0,
       sd_initialize_runs = 0 \<rparr>"

definition BLUESStateDataReporter_describeNextReport ::
  "statedata_reporter \<Rightarrow> simulation \<Rightarrow> error + descriptor" where
  "BLUESStateDataReporter_describeNextReport self simulation =
     (case next_steps (sd_frame_indices self) (sd_reportInterval self) (sim_currentStep simulation) of
        Inl e \<Rightarrow> Inl e
      | Inr steps \<Rightarrow>
          Inr (steps, sd_needsPositions self, sd_needsVelocities self, sd_needsForces self,
               sd_needEnergy self))"

subsection \<open>Headers and values\<close>

text \<open>
  \<^verbatim>\<open>_constructHeaders\<close>: fifteen statements of the form
  \<^verbatim>\<open>if self._flag: headers.append('...')\<close>, in this order.
\<close>

definition BLUESStateDataReporter_constructHeaders :: "statedata_reporter \<Rightarrow> string list" where
  "BLUESStateDataReporter_constructHeaders self =
     (let headers = [];
          headers = (if sd_currentIter self then headers @ [''Iter''] else headers);
          headers = (if sd_progress self then headers @ [''Progress (%)''] else headers);
          headers = (if sd_step self then headers @ [''Step''] else headers);
          headers = (if sd_time self then headers @ [''Time (ps)''] else headers);
          headers = (if sd_alchemicalLambda self then headers @ [''alchemicalLambda''] else headers);
          headers = (if sd_protocolWork self then headers @ [''protocolWork''] else headers);
          headers = (if sd_potentialEnergy self
                     then headers @ [''Potential Energy (kJ/mole)''] else headers);
          headers = (if sd_kineticEnergy self
                     then headers @ [''Kinetic Energy (kJ/mole)''] else headers);
          headers = (if sd_totalEnergy self
                     then headers @ [''Total Energy (kJ/mole)''] else headers);
          headers = (if sd_temperature self then headers @ [''Temperature (K)''] else headers);
          headers = (if sd_volume self then headers @ [''Box Volume (nm^3)''] else headers);
          headers = (if sd_density self then headers @ [''Density (g/mL)''] else headers);
          headers = (if sd_speed self then headers @ [''Speed (ns/day)''] else headers);
          headers = (if sd_elapsedTime self then headers @ [''Elapsed Time (s)''] else headers);
          headers = (if sd_remainingTime self then headers @ [''Time Remaining''] else headers)
      in headers)"

text \<open>
  The entries of the value list are Python integers, strings and floating-point
  numbers. \<open>'f\<close> is the type of the floating-point numbers, on which the model does not
  compute.
\<close>

datatype 'f cell = IntCell int | StrCell string | FloatCell 'f

text \<open>The fifteen observables, named after the constructor's flags.\<close>

datatype column =
    Col_currentIter | Col_progress | Col_step | Col_time | Col_alchemicalLambda
  | Col_protocolWork | Col_potentialEnergy | Col_kineticEnergy | Col_totalEnergy
  | Col_temperature | Col_volume | Col_density | Col_speed | Col_elapsedTime
  | Col_remainingTime

text \<open>
  \<^verbatim>\<open>if self._flag: values.append(expr)\<close>, where \<open>expr\<close> either has a value or raises.
  Once a statement has raised, the later ones are not run.
\<close>

definition append_value :: "bool \<Rightarrow> error + 'v \<Rightarrow> error + 'v list \<Rightarrow> error + 'v list" where
  "append_value flag expr values =
     (case values of
        Inl e \<Rightarrow> Inl e
      | Inr vs \<Rightarrow>
          (if flag then (case expr of Inl e \<Rightarrow> Inl e | Inr v \<Rightarrow> Inr (vs @ [v])) else Inr vs))"

text \<open>
  \<^verbatim>\<open>_constructReportValues\<close>. The step and the iteration counter are read from
  \<^verbatim>\<open>simulation\<close>; every other expression of the source converts units, formats or
  divides floating-point numbers, or reads the clock, and is taken from \<open>q\<close>: \<open>q c\<close> is
  what the source's expression for column \<open>c\<close> evaluates to on this call, or the exception
  it raises. The method starts by reading the box vectors of \<^verbatim>\<open>state\<close> and the clock.
  When \<^verbatim>\<open>simulation\<close> has no attribute \<^verbatim>\<open>currentIter\<close> and the flag is set, the
  attribute is created with value 0; the simulation is returned with the result.
\<close>

definition BLUESStateDataReporter_constructReportValues ::
  "failures \<Rightarrow> (column \<Rightarrow> error + 'f cell) \<Rightarrow> statedata_reporter \<Rightarrow> simulation \<Rightarrow>
   simulation \<times> (error + 'f cell list)" where
  "BLUESStateDataReporter_constructReportValues fail q self simulation =
     (case fail Op_state of
        Some e \<Rightarrow> (simulation, Inl e)
      | None \<Rightarrow>
          (let simulation1 =
                 (if sd_currentIter self \<and> sim_currentIter simulation = None
                  then simulation\<lparr>sim_currentIter := Some 0\<rparr> else simulation);
               values = Inr [];
               values = append_value (sd_currentIter self)
                          (case sim_currentIter simulation1 of
                             None \<Rightarrow> Inl AttributeError
                           | Some i \<Rightarrow> Inr (IntCell i)) values;
               values = append_value (sd_progress self) (q Col_progress) values;
               values = append_value (sd_step self)
                          (Inr (IntCell (sim_currentStep simulation1))) values;
               values = append_value (sd_time self) (q Col_time) values;
               values = append_value (sd_alchemicalLambda self) (q Col_alchemicalLambda) values;
               values = append_value (sd_protocolWork self) (q Col_protocolWork) values;
               values = append_value (sd_potentialEnergy self) (q Col_potentialEnergy) values;
               values = append_value (sd_kineticEnergy self) (q Col_kineticEnergy) values;
               values = append_value (sd_totalEnergy self) (q Col_totalEnergy) values;
               values = append_value (sd_temperature self) (q Col_temperature) values;
               values = append_value (sd_volume self) (q Col_volume) values;
               values = append_value (sd_density self) (q Col_density) values;
               values = append_value (sd_speed self) (q Col_speed) values;
               values = append_value (sd_elapsedTime self) (q Col_elapsedTime) values;
               values = append_value (sd_remainingTime self) (q Col_remainingTime) values
           in (simulation1, values)))"

subsection \<open>Writing a line\<close>






subsection \<open>report\<close>



section \<open>Guard on the file mode\<close>

text \<open>
  \<^verbatim>\<open>
  def _check_mode(m, modes):
      if m not in modes:
          raise ValueError('This operation is only available when a file '
                           'is open in mode="%s".' % m)
  \<close>
  The function has no other statement: it returns \<^verbatim>\<open>None\<close> and assigns nothing.
\<close>

definition check_mode :: "string \<Rightarrow> string list \<Rightarrow> error + unit" where
  "check_mode m modes =
     (if \<not> py_in m modes then
        Inl (ValueError (''This operation is only available when a file is open in mode=''
                         @ [CHR 0x22] @ m @ [CHR 0x22] @ ''.''))
      else Inr ())"

section \<open>Adding a logging level\<close>








section \<open>ReporterConfig\<close>

text \<open>The values of a configuration mapping, and the options of one reporter.\<close>

datatype pyval = PStr string | PInt int | PBool bool | PList "int list" | PNone

type_synonym kwargs = "string \<rightharpoonup> pyval"

text \<open>
  The five constructors that \<^verbatim>\<open>makeReporters\<close> calls and the logger that
  \<^verbatim>\<open>logging.getLogger(__name__)\<close> returns. Three constructors belong to ParmEd. All five
  receive the option mapping as keyword arguments (\<^verbatim>\<open>**self._cfg[...]\<close>), and what a
  constructor does with a keyword it does not know or a value it cannot use is the
  constructor's business: it returns a reporter or raises.
\<close>

record ('lg, 'r) constructors =
  new_StateDataReporter :: "string \<Rightarrow> kwargs \<Rightarrow> error + 'r"
  new_NetCDF4Reporter :: "string \<Rightarrow> kwargs \<Rightarrow> error + 'r"
  new_RestartReporter :: "string \<Rightarrow> bool \<Rightarrow> kwargs \<Rightarrow> error + 'r"
  new_ProgressReporter :: "string \<Rightarrow> kwargs \<Rightarrow> error + 'r"
  new_BLUESStateDataReporter :: "'lg \<Rightarrow> kwargs \<Rightarrow> error + 'r"
  getLogger :: 'lg

text \<open>The fields set by \<^verbatim>\<open>ReporterConfig.__init__\<close>.\<close>

record 'lg reporter_config =
  rc_outfname :: string
  rc_cfg :: "string \<rightharpoonup> kwargs"
  rc_logger :: "'lg option"
  rc_trajectory_interval :: pyval

definition ReporterConfig_init ::
  "string \<Rightarrow> (string \<rightharpoonup> kwargs) \<Rightarrow> 'lg option \<Rightarrow> 'lg reporter_config" where
  "ReporterConfig_init outfname reporter_config logger =
     \<lparr> rc_outfname = outfname,
       rc_cfg = reporter_config,
       rc_logger = logger,
       rc_trajectory_interval = PInt 0 \<rparr>"

text \<open>
  The file argument of a constructor call:
  \<^verbatim>\<open>
  if 'outfname' in self._cfg[key]:
      outfname = self._cfg[key]['outfname']
  else:
      outfname = self._outfname
  ... Constructor(outfname + ext, ...)
  \<close>
  \<^verbatim>\<open>+\<close> with a string on the right raises \<^verbatim>\<open>TypeError\<close> unless the left operand is a
  string.
\<close>

definition file_argument :: "string \<Rightarrow> kwargs \<Rightarrow> string \<Rightarrow> error + string" where
  "file_argument prefix options ext =
     (case options ''outfname'' of
        None \<Rightarrow> Inr (prefix @ ext)
      | Some (PStr outfname) \<Rightarrow> Inr (outfname @ ext)
      | Some _ \<Rightarrow> Inl TypeError)"

text \<open>
  \<^verbatim>\<open>Reporters.append(r)\<close> for the reporter of a constructor call, or the exception of the
  call.
\<close>

definition append_reporter ::
  "'s \<Rightarrow> 'r list \<Rightarrow> error + 'r \<Rightarrow> 's \<times> (error + 'r list)" where
  "append_reporter self Reporters r =
     (case r of Inl e \<Rightarrow> (self, Inl e) | Inr x \<Rightarrow> (self, Inr (Reporters @ [x])))"

text \<open>The five \<^verbatim>\<open>if key in self._cfg.keys()\<close> blocks of \<^verbatim>\<open>makeReporters\<close>.\<close>

definition make_state ::
  "('lg, 'r) constructors \<Rightarrow> 'lg reporter_config \<Rightarrow> 'r list \<Rightarrow>
   'lg reporter_config \<times> (error + 'r list)" where
  "make_state c self Reporters =
     (case rc_cfg self ''state'' of
        None \<Rightarrow> (self, Inr Reporters)
      | Some options \<Rightarrow>
          (case file_argument (rc_outfname self) options ''.ene'' of
             Inl e \<Rightarrow> (self, Inl e)
           | Inr file \<Rightarrow> append_reporter self Reporters (new_StateDataReporter c file options)))"

definition make_traj_netcdf ::
  "('lg, 'r) constructors \<Rightarrow> 'lg reporter_config \<Rightarrow> 'r list \<Rightarrow>
   'lg reporter_config \<times> (error + 'r list)" where
  "make_traj_netcdf c self Reporters =
     (case rc_cfg self ''traj_netcdf'' of
        None \<Rightarrow> (self, Inr Reporters)
      | Some options \<Rightarrow>
          (let self1 =
                 (case options ''reportInterval'' of
                    None \<Rightarrow> self
                  | Some v \<Rightarrow> self\<lparr>rc_trajectory_interval := v\<rparr>)
           in
             case file_argument (rc_outfname self1) options ''.nc'' of
               Inl e \<Rightarrow> (self1, Inl e)
             | Inr file \<Rightarrow> append_reporter self1 Reporters (new_NetCDF4Reporter c file options)))"

text \<open>
  \<^verbatim>\<open>RestartReporter(outfname + '.rst7', netcdf=True, **self._cfg['restart'])\<close>: a key
  \<^verbatim>\<open>netcdf\<close> among the options gives the call two values for one keyword, which is a
  \<^verbatim>\<open>TypeError\<close>.
\<close>

definition make_restart ::
  "('lg, 'r) constructors \<Rightarrow> 'lg reporter_config \<Rightarrow> 'r list \<Rightarrow>
   'lg reporter_config \<times> (error + 'r list)" where
  "make_restart c self Reporters =
     (case rc_cfg self ''restart'' of
        None \<Rightarrow> (self, Inr Reporters)
      | Some options \<Rightarrow>
          (case file_argument (rc_outfname self) options ''.rst7'' of
             Inl e \<Rightarrow> (self, Inl e)
           | Inr file \<Rightarrow>
               (if options ''netcdf'' \<noteq> None then (self, Inl TypeError)
                else append_reporter self Reporters (new_RestartReporter c file True options))))"

definition make_progress ::
  "('lg, 'r) constructors \<Rightarrow> 'lg reporter_config \<Rightarrow> 'r list \<Rightarrow>
   'lg reporter_config \<times> (error + 'r list)" where
  "make_progress c self Reporters =
     (case rc_cfg self ''progress'' of
        None \<Rightarrow> (self, Inr Reporters)
      | Some options \<Rightarrow>
          (case file_argument (rc_outfname self) options ''.prog'' of
             Inl e \<Rightarrow> (self, Inl e)
           | Inr file \<Rightarrow> append_reporter self Reporters (new_ProgressReporter c file options)))"

text \<open>
  \<^verbatim>\<open>if not self._logger: self._logger = logging.getLogger(__name__)\<close>: a logger object is
  true, \<^verbatim>\<open>None\<close> is false.
\<close>

definition make_stream ::
  "('lg, 'r) constructors \<Rightarrow> 'lg reporter_config \<Rightarrow> 'r list \<Rightarrow>
   'lg reporter_config \<times> (error + 'r list)" where
  "make_stream c self Reporters =
     (case rc_cfg self ''stream'' of
        None \<Rightarrow> (self, Inr Reporters)
      | Some options \<Rightarrow>
          (let logger = (case rc_logger self of None \<Rightarrow> getLogger c | Some l \<Rightarrow> l);
               self1 = self\<lparr>rc_logger := Some logger\<rparr>
           in append_reporter self1 Reporters (new_BLUESStateDataReporter c logger options)))"

text \<open>Statements in sequence: an exception ends the method.\<close>

definition and_then ::
  "'s \<times> (error + 'a) \<Rightarrow> ('s \<Rightarrow> 'a \<Rightarrow> 's \<times> (error + 'a)) \<Rightarrow> 's \<times> (error + 'a)" where
  "and_then r f = (case r of (s, Inl e) \<Rightarrow> (s, Inl e) | (s, Inr x) \<Rightarrow> f s x)"

text \<open>
  \<^verbatim>\<open>ReporterConfig.makeReporters\<close>: \<^verbatim>\<open>Reporters = []\<close>, the five blocks in source
  order, \<^verbatim>\<open>return Reporters\<close>. The result is the object after the call and the list
  returned or the exception raised.
\<close>

definition makeReporters ::
  "('lg, 'r) constructors \<Rightarrow> 'lg reporter_config \<Rightarrow> 'lg reporter_config \<times> (error + 'r list)" where
  "makeReporters c self =
     and_then (and_then (and_then (and_then (make_state c self [])
       (make_traj_netcdf c)) (make_restart c)) (make_progress c)) (make_stream c)"

text \<open>The keys for which \<^verbatim>\<open>makeReporters\<close> has a block, in the order of the blocks.\<close>

definition reporter_keys :: "string list" where
  "reporter_keys = [''state'', ''traj_netcdf'', ''restart'', ''progress'', ''stream'']"

section \<open>Notions used by the properties\<close>







text \<open>
  The canonical order of the columns, the constructor flag of each column and its
  header text, as the documentation of the class lists them.
\<close>

definition canonical_columns :: "column list" where
  "canonical_columns =
     [Col_currentIter, Col_progress, Col_step, Col_time, Col_alchemicalLambda,
      Col_protocolWork, Col_potentialEnergy, Col_kineticEnergy, Col_totalEnergy,
      Col_temperature, Col_volume, Col_density, Col_speed, Col_elapsedTime,
      Col_remainingTime]"

fun flag_of :: "statedata_reporter \<Rightarrow> column \<Rightarrow> bool" where
  "flag_of self Col_currentIter = sd_currentIter self"
| "flag_of self Col_progress = sd_progress self"
| "flag_of self Col_step = sd_step self"
| "flag_of self Col_time = sd_time self"
| "flag_of self Col_alchemicalLambda = sd_alchemicalLambda self"
| "flag_of self Col_protocolWork = sd_protocolWork self"
| "flag_of self Col_potentialEnergy = sd_potentialEnergy self"
| "flag_of self Col_kineticEnergy = sd_kineticEnergy self"
| "flag_of self Col_totalEnergy = sd_totalEnergy self"
| "flag_of self Col_temperature = sd_temperature self"
| "flag_of self Col_volume = sd_volume self"
| "flag_of self Col_density = sd_density self"
| "flag_of self Col_speed = sd_speed self"
| "flag_of self Col_elapsedTime = sd_elapsedTime self"
| "flag_of self Col_remainingTime = sd_remainingTime self"

fun canonical_header :: "column \<Rightarrow> string" where
  "canonical_header Col_currentIter = ''Iter''"
| "canonical_header Col_progress = ''Progress (%)''"
| "canonical_header Col_step = ''Step''"
| "canonical_header Col_time = ''Time (ps)''"
| "canonical_header Col_alchemicalLambda = ''alchemicalLambda''"
| "canonical_header Col_protocolWork = ''protocolWork''"
| "canonical_header Col_potentialEnergy = ''Potential Energy (kJ/mole)''"
| "canonical_header Col_kineticEnergy = ''Kinetic Energy (kJ/mole)''"
| "canonical_header Col_totalEnergy = ''Total Energy (kJ/mole)''"
| "canonical_header Col_temperature = ''Temperature (K)''"
| "canonical_header Col_volume = ''Box Volume (nm^3)''"
| "canonical_header Col_density = ''Density (g/mL)''"
| "canonical_header Col_speed = ''Speed (ns/day)''"
| "canonical_header Col_elapsedTime = ''Elapsed Time (s)''"
| "canonical_header Col_remainingTime = ''Time Remaining''"

text \<open>
  The value of a column on one call: the iteration counter (0 when \<^verbatim>\<open>simulation\<close> has
  none yet), the step, or the quantity \<open>q\<close> supplies.
\<close>

fun column_value :: "simulation \<Rightarrow> (column \<Rightarrow> error + 'f cell) \<Rightarrow> column \<Rightarrow> error + 'f cell" where
  "column_value simulation q Col_currentIter =
     Inr (IntCell (case sim_currentIter simulation of None \<Rightarrow> 0 | Some i \<Rightarrow> i))"
| "column_value simulation q Col_step = Inr (IntCell (sim_currentStep simulation))"
| "column_value simulation q c = q c"

text \<open>A call during which no wrapped library raises.\<close>

definition no_failure :: failures where
  "no_failure = (\<lambda>op. None)"













text \<open>
  Constructors for the examples, each reporter standing for the file name or logger it
  was built with. The first accept every keyword. The second do what a Python function
  without a parameter \<^verbatim>\<open>outfname\<close> and without \<^verbatim>\<open>**kwargs\<close> does, as
  \<^verbatim>\<open>NetCDF4Reporter.__init__\<close> and \<^verbatim>\<open>BLUESStateDataReporter.__init__\<close> of this module
  are: called with the keyword \<^verbatim>\<open>outfname\<close> they raise \<^verbatim>\<open>TypeError\<close>.
\<close>

definition accepting_constructors :: "(string, string) constructors" where
  "accepting_constructors =
     \<lparr> new_StateDataReporter = (\<lambda>file kw. Inr file),
       new_NetCDF4Reporter = (\<lambda>file kw. Inr file),
       new_RestartReporter = (\<lambda>file netcdf kw. Inr file),
       new_ProgressReporter = (\<lambda>file kw. Inr file),
       new_BLUESStateDataReporter = (\<lambda>logger kw. Inr logger),
       getLogger = ''blues.reporters'' \<rparr>"

definition strict_constructors :: "(string, string) constructors" where
  "strict_constructors =
     \<lparr> new_StateDataReporter =
         (\<lambda>file kw. if kw ''outfname'' \<noteq> None then Inl TypeError else Inr file),
       new_NetCDF4Reporter =
         (\<lambda>file kw. if kw ''outfname'' \<noteq> None then Inl TypeError else Inr file),
       new_RestartReporter =
         (\<lambda>file netcdf kw. if kw ''outfname'' \<noteq> None then Inl TypeError else Inr file),
       new_ProgressReporter =
         (\<lambda>file kw. if kw ''outfname'' \<noteq> None then Inl TypeError else Inr file),
       new_BLUESStateDataReporter =
         (\<lambda>logger kw. if kw ''outfname'' \<noteq> None then Inl TypeError else Inr logger),
       getLogger = ''blues.reporters'' \<rparr>"

text \<open>
  Configurations for the examples: the mapping \<^verbatim>\<open>{'state': options}\<close>, and the options
  \<^verbatim>\<open>{'reportInterval': 250}\<close> and \<^verbatim>\<open>{'outfname': v}\<close>.
\<close>

definition state_only :: "kwargs \<Rightarrow> (string \<rightharpoonup> kwargs)" where
  "state_only options = [''state'' \<mapsto> options]"

definition interval_250 :: kwargs where
  "interval_250 = [''reportInterval'' \<mapsto> PInt 250]"

definition outfname_is :: "pyval \<Rightarrow> kwargs" where
  "outfname_is v = [''outfname'' \<mapsto> v]"


section \<open>Auxiliary notions of the proofs\<close>

text \<open>
  Two \<^verbatim>\<open>ReporterConfig\<close> objects with the same prefix, the same logger and the same
  entries under the five keys that \<^verbatim>\<open>makeReporters\<close> reads; two results of a block with
  the same outcome and such objects.
\<close>

definition same_inputs :: "'lg reporter_config \<Rightarrow> 'lg reporter_config \<Rightarrow> bool" where
  "same_inputs s s' \<longleftrightarrow>
     rc_outfname s = rc_outfname s' \<and> rc_logger s = rc_logger s'
     \<and> rc_cfg s ''state'' = rc_cfg s' ''state''
     \<and> rc_cfg s ''traj_netcdf'' = rc_cfg s' ''traj_netcdf''
     \<and> rc_cfg s ''restart'' = rc_cfg s' ''restart''
     \<and> rc_cfg s ''progress'' = rc_cfg s' ''progress''
     \<and> rc_cfg s ''stream'' = rc_cfg s' ''stream''"

definition agree :: "'lg reporter_config \<times> (error + 'r list) \<Rightarrow> 'lg reporter_config \<times> (error + 'r list) \<Rightarrow> bool" where
  "agree r r' \<longleftrightarrow> snd r = snd r' \<and> same_inputs (fst r) (fst r')"

text \<open>A list of \<^verbatim>\<open>if flag: values.append(expr)\<close> statements run in sequence.\<close>

fun collect :: "(bool \<times> (error + 'v)) list \<Rightarrow> error + 'v list \<Rightarrow> error + 'v list" where
  "collect [] acc = acc"
| "collect ((flag, expr) # items) acc = collect items (append_value flag expr acc)"

section \<open>The reporting cadence\<close>

lemma py_in_set: "py_in x xs = (x \<in> set xs)"
  by (induction xs) auto

lemma next_steps_interval:
  "n \<noteq> 0 \<Longrightarrow> next_steps [] n k = Inr (n - k mod n)"
  by (simp add: next_steps_def py_mod_def)

lemma next_steps_frames:
  "xs \<noteq> [] \<Longrightarrow> next_steps xs n k = Inr (if k \<in> set xs then 1 else - 1)"
  by (simp add: next_steps_def py_in_set)

lemma store_frame_indices_Nil: "store_frame_indices [] = []"
  by (simp add: store_frame_indices_def)

lemma store_frame_indices_map:
  "store_frame_indices xs = map (\<lambda>x. x - 1) xs"
  by (simp add: store_frame_indices_def)

text \<open>
  Claim C1. A reporter of any of the three classes, constructed with a report interval
  \<open>n \<ge> 1\<close> and an empty \<^verbatim>\<open>frame_indices\<close> list, answers \<^verbatim>\<open>describeNextReport\<close> at
  current step \<open>k\<close> with \<open>n - (k mod n)\<close> as the number of steps until the next report.
\<close>

theorem describeNextReport_interval:
  assumes "1 \<le> n"
  shows "steps_of (BLUESHDF5Reporter_describeNextReport
           (BLUESHDF5Reporter_init traj n title coordinates [] time cell temperature
              potentialEnergy kineticEnergy velocities protocolWork alchemicalLambda
              parameters environment) simulation)
         = Inr (n - sim_currentStep simulation mod n)
       \<and> steps_of (BLUESStateDataReporter_describeNextReport
           (BLUESStateDataReporter_init log n [] title step time potentialEnergy
              kineticEnergy totalEnergy temperature volume density progress remainingTime
              speed elapsedTime separator totalSteps protocolWork alchemicalLambda
              currentIter) simulation)
         = Inr (n - sim_currentStep simulation mod n)
       \<and> steps_of (NetCDF4Reporter_describeNextReport
           (NetCDF4Reporter_init fname n [] crds vels frcs protocolWork alchemicalLambda)
           simulation)
         = Inr (n - sim_currentStep simulation mod n)"
proof -
  from assms have n: "n \<noteq> 0" by simp
  show ?thesis
    by (simp add: steps_of_def BLUESHDF5Reporter_describeNextReport_def
        BLUESHDF5Reporter_init_def BLUESStateDataReporter_describeNextReport_def
        BLUESStateDataReporter_init_def NetCDF4Reporter_describeNextReport_def
        NetCDF4Reporter_init_def store_frame_indices_Nil next_steps_interval [OF n])
qed

theorem describeNextReport_interval_witness:
  "(1::int) \<le> 250
   \<and> steps_of (BLUESHDF5Reporter_describeNextReport
        (BLUESHDF5Reporter_init \<lparr>tf_calls = [], tf_has_flush = True\<rparr> 250 ''NCMC Trajectory''
           True [] False True False False False False True True None True)
        \<lparr>sim_currentStep = 1100, sim_currentIter = None\<rparr>) = Inr 150
   \<and> steps_of (BLUESStateDataReporter_describeNextReport
        (BLUESStateDataReporter_init
           \<lparr>lg_calls = [], lg_has_info = True, lg_has_report = False, lg_has_flush = False\<rparr>
           250 [] ''NCMC Trajectory'' True False False False False False False False False
           False False False [CHR 0x09] None True True False)
        \<lparr>sim_currentStep = 1100, sim_currentIter = None\<rparr>) = Inr 150
   \<and> steps_of (NetCDF4Reporter_describeNextReport
        (NetCDF4Reporter_init ''blues.nc'' 250 [] True False False True True)
        \<lparr>sim_currentStep = 1100, sim_currentIter = None\<rparr>) = Inr 150"
  using describeNextReport_interval [where n = 250
      and simulation = "\<lparr>sim_currentStep = 1100, sim_currentIter = None\<rparr>"
      and traj = "\<lparr>tf_calls = [], tf_has_flush = True\<rparr>" and title = "''NCMC Trajectory''"
      and coordinates = True and time = False and cell = True and temperature = False
      and potentialEnergy = False and kineticEnergy = False and velocities = False
      and protocolWork = True and alchemicalLambda = True and parameters = None
      and environment = True
      and log = "\<lparr>lg_calls = [], lg_has_info = True, lg_has_report = False, lg_has_flush = False\<rparr>"
      and step = True and totalEnergy = False and volume = False and density = False
      and progress = False and remainingTime = False and speed = False
      and elapsedTime = False and separator = "[CHR 0x09]" and totalSteps = None
      and currentIter = False and fname = "''blues.nc''" and crds = True and vels = False
      and frcs = False]
  by simp


text \<open>
  Claim C2. A reporter constructed with a non-empty frame list stores every index
  decremented by one, and \<^verbatim>\<open>describeNextReport\<close> answers 1 exactly when the current step
  is in the stored list and -1 otherwise, whatever the report interval is (also 0, which
  the periodic rule could not divide by).
\<close>

theorem describeNextReport_frame_indices:
  assumes "frame_indices \<noteq> []"
  shows "hd_frame_indices (BLUESHDF5Reporter_init traj n title coordinates frame_indices time
            cell temperature potentialEnergy kineticEnergy velocities protocolWork
            alchemicalLambda parameters environment) = map (\<lambda>x. x - 1) frame_indices
       \<and> sd_frame_indices (BLUESStateDataReporter_init log n frame_indices title step time
            potentialEnergy kineticEnergy totalEnergy temperature volume density progress
            remainingTime speed elapsedTime separator totalSteps protocolWork
            alchemicalLambda currentIter) = map (\<lambda>x. x - 1) frame_indices
       \<and> nc_frame_indices (NetCDF4Reporter_init fname n frame_indices crds vels frcs
            protocolWork alchemicalLambda) = map (\<lambda>x. x - 1) frame_indices
       \<and> steps_of (BLUESHDF5Reporter_describeNextReport
           (BLUESHDF5Reporter_init traj n title coordinates frame_indices time cell
              temperature potentialEnergy kineticEnergy velocities protocolWork
              alchemicalLambda parameters environment) simulation)
         = Inr (if sim_currentStep simulation \<in> set (map (\<lambda>x. x - 1) frame_indices)
                then 1 else - 1)
       \<and> steps_of (BLUESStateDataReporter_describeNextReport
           (BLUESStateDataReporter_init log n frame_indices title step time potentialEnergy
              kineticEnergy totalEnergy temperature volume density progress remainingTime
              speed elapsedTime separator totalSteps protocolWork alchemicalLambda
              currentIter) simulation)
         = Inr (if sim_currentStep simulation \<in> set (map (\<lambda>x. x - 1) frame_indices)
                then 1 else - 1)
       \<and> steps_of (NetCDF4Reporter_describeNextReport
           (NetCDF4Reporter_init fname n frame_indices crds vels frcs protocolWork
              alchemicalLambda) simulation)
         = Inr (if sim_currentStep simulation \<in> set (map (\<lambda>x. x - 1) frame_indices)
                then 1 else - 1)"
proof -
  from assms have ne: "map (\<lambda>x. x - 1) frame_indices \<noteq> []" by simp
  show ?thesis
    by (simp add: steps_of_def BLUESHDF5Reporter_describeNextReport_def
        BLUESHDF5Reporter_init_def BLUESStateDataReporter_describeNextReport_def
        BLUESStateDataReporter_init_def NetCDF4Reporter_describeNextReport_def
        NetCDF4Reporter_init_def store_frame_indices_map next_steps_frames [OF ne])
qed

theorem describeNextReport_frame_indices_witness:
  "[1, 100 :: int] \<noteq> []
   \<and> hd_frame_indices (BLUESHDF5Reporter_init \<lparr>tf_calls = [], tf_has_flush = True\<rparr> 250
        ''NCMC Trajectory'' True [1, 100] False True False False False False True True None
        True) = [0, 99]
   \<and> steps_of (BLUESHDF5Reporter_describeNextReport
        (BLUESHDF5Reporter_init \<lparr>tf_calls = [], tf_has_flush = True\<rparr> 250 ''NCMC Trajectory''
           True [1, 100] False True False False False False True True None True)
        \<lparr>sim_currentStep = 99, sim_currentIter = None\<rparr>) = Inr 1
   \<and> steps_of (BLUESStateDataReporter_describeNextReport
        (BLUESStateDataReporter_init
           \<lparr>lg_calls = [], lg_has_info = True, lg_has_report = False, lg_has_flush = False\<rparr>
           250 [1, 100] ''NCMC Trajectory'' True False False False False False False False
           False False False False [CHR 0x09] None True True False)
        \<lparr>sim_currentStep = 99, sim_currentIter = None\<rparr>) = Inr 1
   \<and> steps_of (NetCDF4Reporter_describeNextReport
        (NetCDF4Reporter_init ''blues.nc'' 250 [1, 100] True False False True True)
        \<lparr>sim_currentStep = 99, sim_currentIter = None\<rparr>) = Inr 1"
  using describeNextReport_frame_indices [where frame_indices = "[1, 100]" and n = 250
      and simulation = "\<lparr>sim_currentStep = 99, sim_currentIter = None\<rparr>"
      and traj = "\<lparr>tf_calls = [], tf_has_flush = True\<rparr>" and title = "''NCMC Trajectory''"
      and coordinates = True and time = False and cell = True and temperature = False
      and potentialEnergy = False and kineticEnergy = False and velocities = False
      and protocolWork = True and alchemicalLambda = True and parameters = None
      and environment = True
      and log = "\<lparr>lg_calls = [], lg_has_info = True, lg_has_report = False, lg_has_flush = False\<rparr>"
      and step = True and totalEnergy = False and volume = False and density = False
      and progress = False and remainingTime = False and speed = False
      and elapsedTime = False and separator = "[CHR 0x09]" and totalSteps = None
      and currentIter = False and fname = "''blues.nc''" and crds = True and vels = False
      and frcs = False]
  by simp

text \<open>
  Claim C10. When the frame list contains the index 0, the stored list contains -1, and
  at every current step \<open>k \<ge> 0\<close> the answer of \<^verbatim>\<open>describeNextReport\<close> is the one the
  non-zero indices alone determine: 1 when \<open>k + 1\<close> is one of them, -1 otherwise. The
  index 0 never makes the answer 1.
\<close>

theorem frame_index_zero_never_reports:
  assumes "0 \<in> set frame_indices" and "0 \<le> sim_currentStep simulation"
  shows "- 1 \<in> set (hd_frame_indices (BLUESHDF5Reporter_init traj n title coordinates
            frame_indices time cell temperature potentialEnergy kineticEnergy velocities
            protocolWork alchemicalLambda parameters environment))
       \<and> - 1 \<in> set (sd_frame_indices (BLUESStateDataReporter_init log n frame_indices title
            step time potentialEnergy kineticEnergy totalEnergy temperature volume density
            progress remainingTime speed elapsedTime separator totalSteps protocolWork
            alchemicalLambda currentIter))
       \<and> - 1 \<in> set (nc_frame_indices (NetCDF4Reporter_init fname n frame_indices crds vels
            frcs protocolWork alchemicalLambda))
       \<and> steps_of (BLUESHDF5Reporter_describeNextReport
           (BLUESHDF5Reporter_init traj n title coordinates frame_indices time cell
              temperature potentialEnergy kineticEnergy velocities protocolWork
              alchemicalLambda parameters environment) simulation)
         = Inr (if sim_currentStep simulation + 1 \<in> set (removeAll 0 frame_indices)
                then 1 else - 1)
       \<and> steps_of (BLUESStateDataReporter_describeNextReport
           (BLUESStateDataReporter_init log n frame_indices title step time potentialEnergy
              kineticEnergy totalEnergy temperature volume density progress remainingTime
              speed elapsedTime separator totalSteps protocolWork alchemicalLambda
              currentIter) simulation)
         = Inr (if sim_currentStep simulation + 1 \<in> set (removeAll 0 frame_indices)
                then 1 else - 1)
       \<and> steps_of (NetCDF4Reporter_describeNextReport
           (NetCDF4Reporter_init fname n frame_indices crds vels frcs protocolWork
              alchemicalLambda) simulation)
         = Inr (if sim_currentStep simulation + 1 \<in> set (removeAll 0 frame_indices)
                then 1 else - 1)"
proof -
  from assms(1) have ne: "map (\<lambda>x. x - 1) frame_indices \<noteq> []" by auto
  from assms(1) have m: "- 1 \<in> set (map (\<lambda>x. x - 1) frame_indices)" by force
  have "(sim_currentStep simulation \<in> set (map (\<lambda>x. x - 1) frame_indices))
        = (sim_currentStep simulation + 1 \<in> set (removeAll 0 frame_indices))"
  proof
    assume "sim_currentStep simulation \<in> set (map (\<lambda>x. x - 1) frame_indices)"
    then obtain x where "x \<in> set frame_indices" and "sim_currentStep simulation = x - 1"
      by auto
    with assms(2) show "sim_currentStep simulation + 1 \<in> set (removeAll 0 frame_indices)"
      by simp
  next
    assume "sim_currentStep simulation + 1 \<in> set (removeAll 0 frame_indices)"
    then have "sim_currentStep simulation + 1 \<in> set frame_indices" by simp
    then have "(sim_currentStep simulation + 1) - 1 \<in> (\<lambda>x. x - 1) ` set frame_indices"
      by (rule imageI)
    then show "sim_currentStep simulation \<in> set (map (\<lambda>x. x - 1) frame_indices)" by simp
  qed
  then have s: "next_steps (map (\<lambda>x. x - 1) frame_indices) n (sim_currentStep simulation)
        = Inr (if sim_currentStep simulation + 1 \<in> set (removeAll 0 frame_indices)
               then 1 else - 1)"
    by (simp add: next_steps_frames [OF ne])
  show ?thesis
    using m
    by (simp add: steps_of_def BLUESHDF5Reporter_describeNextReport_def
        BLUESHDF5Reporter_init_def BLUESStateDataReporter_describeNextReport_def
        BLUESStateDataReporter_init_def NetCDF4Reporter_describeNextReport_def
        NetCDF4Reporter_init_def store_frame_indices_map s)
qed

theorem frame_index_zero_never_reports_witness:
  "(0::int) \<in> set [0, 100]
   \<and> 0 \<le> sim_currentStep \<lparr>sim_currentStep = 0, sim_currentIter = None\<rparr>
   \<and> hd_frame_indices (BLUESHDF5Reporter_init \<lparr>tf_calls = [], tf_has_flush = True\<rparr> 250
        ''NCMC Trajectory'' True [0, 100] False True False False False False True True None
        True) = [- 1, 99]
   \<and> steps_of (BLUESHDF5Reporter_describeNextReport
        (BLUESHDF5Reporter_init \<lparr>tf_calls = [], tf_has_flush = True\<rparr> 250 ''NCMC Trajectory''
           True [0, 100] False True False False False False True True None True)
        \<lparr>sim_currentStep = 0, sim_currentIter = None\<rparr>) = Inr (- 1)
   \<and> steps_of (BLUESStateDataReporter_describeNextReport
        (BLUESStateDataReporter_init
           \<lparr>lg_calls = [], lg_has_info = True, lg_has_report = False, lg_has_flush = False\<rparr>
           250 [0, 100] ''NCMC Trajectory'' True False False False False False False False
           False False False False [CHR 0x09] None True True False)
        \<lparr>sim_currentStep = 0, sim_currentIter = None\<rparr>) = Inr (- 1)
   \<and> steps_of (NetCDF4Reporter_describeNextReport
        (NetCDF4Reporter_init ''blues.nc'' 250 [0, 100] True False False True True)
        \<lparr>sim_currentStep = 0, sim_currentIter = None\<rparr>) = Inr (- 1)"
  using frame_index_zero_never_reports [where frame_indices = "[0, 100]" and n = 250
      and simulation = "\<lparr>sim_currentStep = 0, sim_currentIter = None\<rparr>"
      and traj = "\<lparr>tf_calls = [], tf_has_flush = True\<rparr>" and title = "''NCMC Trajectory''"
      and coordinates = True and time = False and cell = True and temperature = False
      and potentialEnergy = False and kineticEnergy = False and velocities = False
      and protocolWork = True and alchemicalLambda = True and parameters = None
      and environment = True
      and log = "\<lparr>lg_calls = [], lg_has_info = True, lg_has_report = False, lg_has_flush = False\<rparr>"
      and step = True and totalEnergy = False and volume = False and density = False
      and progress = False and remainingTime = False and speed = False
      and elapsedTime = False and separator = "[CHR 0x09]" and totalSteps = None
      and currentIter = False and fname = "''blues.nc''" and crds = True and vels = False
      and frcs = False]
  by (simp add: BLUESHDF5Reporter_init_def store_frame_indices_def)

section \<open>The guard on the file mode\<close>

text \<open>
  Claim C7. \<^verbatim>\<open>_check_mode(m, modes)\<close> raises \<^verbatim>\<open>ValueError\<close> exactly when \<open>m\<close> is not a
  member of \<open>modes\<close>, and otherwise returns normally; it has no effect besides.
\<close>

theorem check_mode_raises_iff_not_member:
  "check_mode m modes =
     (if m \<in> set modes then Inr ()
      else Inl (ValueError (''This operation is only available when a file is open in mode=''
                            @ [CHR 0x22] @ m @ [CHR 0x22] @ ''.'')))"
  by (simp add: check_mode_def py_in_set)

theorem check_mode_raises_iff_not_member_witness:
  "check_mode ''r'' [''w'', ''a''] =
     Inl (ValueError (''This operation is only available when a file is open in mode=''
                      @ [CHR 0x22] @ ''r'' @ [CHR 0x22] @ ''.''))
   \<and> check_mode ''a'' [''w'', ''a''] = Inr ()"
  using check_mode_raises_iff_not_member [of "''r''" "[''w'', ''a'']"]
    check_mode_raises_iff_not_member [of "''a''" "[''w'', ''a'']"]
  by simp

section \<open>Re-adding a logging level\<close>




section \<open>The reporter factory\<close>

lemma and_then_simps [simp]:
  "and_then (s, Inr x) f = f s x"
  "and_then (s, Inl e) f = (s, Inl e)"
  by (simp_all add: and_then_def)

lemma make_state_absent: "rc_cfg s ''state'' = None \<Longrightarrow> make_state c s R = (s, Inr R)"
  by (simp add: make_state_def)
lemma make_traj_netcdf_absent:
  "rc_cfg s ''traj_netcdf'' = None \<Longrightarrow> make_traj_netcdf c s R = (s, Inr R)"
  by (simp add: make_traj_netcdf_def)
lemma make_restart_absent: "rc_cfg s ''restart'' = None \<Longrightarrow> make_restart c s R = (s, Inr R)"
  by (simp add: make_restart_def)
lemma make_progress_absent: "rc_cfg s ''progress'' = None \<Longrightarrow> make_progress c s R = (s, Inr R)"
  by (simp add: make_progress_def)
lemma make_stream_absent: "rc_cfg s ''stream'' = None \<Longrightarrow> make_stream c s R = (s, Inr R)"
  by (simp add: make_stream_def)

lemma makeReporters_no_keys:
  assumes "rc_cfg s ''state'' = None" "rc_cfg s ''traj_netcdf'' = None"
    "rc_cfg s ''restart'' = None" "rc_cfg s ''progress'' = None" "rc_cfg s ''stream'' = None"
  shows "makeReporters c s = (s, Inr [])"
  using assms
  by (simp add: makeReporters_def make_state_absent make_traj_netcdf_absent
      make_restart_absent make_progress_absent make_stream_absent)



lemma append_reporter_agree:
  "same_inputs s s' \<Longrightarrow> agree (append_reporter s R x) (append_reporter s' R x)"
  by (simp add: append_reporter_def agree_def split: sum.splits)

lemma make_state_agree:
  "same_inputs s s' \<Longrightarrow> agree (make_state c s R) (make_state c s' R)"
  unfolding make_state_def
  by (auto simp: agree_def same_inputs_def append_reporter_def split: option.splits sum.splits)

lemma make_traj_netcdf_agree:
  "same_inputs s s' \<Longrightarrow> agree (make_traj_netcdf c s R) (make_traj_netcdf c s' R)"
  unfolding make_traj_netcdf_def
  by (auto simp: agree_def same_inputs_def append_reporter_def Let_def split: option.splits sum.splits)

lemma make_restart_agree:
  "same_inputs s s' \<Longrightarrow> agree (make_restart c s R) (make_restart c s' R)"
  unfolding make_restart_def
  by (auto simp: agree_def same_inputs_def append_reporter_def split: option.splits sum.splits)

lemma make_progress_agree:
  "same_inputs s s' \<Longrightarrow> agree (make_progress c s R) (make_progress c s' R)"
  unfolding make_progress_def
  by (auto simp: agree_def same_inputs_def append_reporter_def split: option.splits sum.splits)

lemma make_stream_agree:
  "same_inputs s s' \<Longrightarrow> agree (make_stream c s R) (make_stream c s' R)"
  unfolding make_stream_def
  by (auto simp: agree_def same_inputs_def append_reporter_def Let_def split: option.splits sum.splits)

lemma and_then_agree:
  assumes "agree r r'" and "\<And>s s' R. same_inputs s s' \<Longrightarrow> agree (f s R) (f s' R)"
  shows "agree (and_then r f) (and_then r' f)"
proof (cases r; cases r')
  fix s x s' x' assume r: "r = (s, x)" "r' = (s', x')"
  with assms(1) have xx: "x = x'" and ss: "same_inputs s s'" by (simp_all add: agree_def)
  show ?thesis
  proof (cases x)
    case (Inl e)
    with xx have "x' = Inl e" by simp
    with r Inl ss show ?thesis by (simp add: agree_def)
  next
    case (Inr R)
    with xx have "x' = Inr R" by simp
    with r Inr assms(2) [OF ss] show ?thesis by simp
  qed
qed

lemma makeReporters_agree:
  "same_inputs s s' \<Longrightarrow> agree (makeReporters c s) (makeReporters c s')"
  unfolding makeReporters_def
  by (intro and_then_agree make_state_agree make_traj_netcdf_agree make_restart_agree
      make_progress_agree make_stream_agree)

lemma same_inputs_other_key:
  "key \<notin> set reporter_keys \<Longrightarrow> same_inputs (s\<lparr>rc_cfg := (rc_cfg s)(key \<mapsto> v)\<rparr>) s"
  by (auto simp: same_inputs_def reporter_keys_def)


lemma and_then_Inr:
  assumes "and_then r f = (s', Inr R')"
  obtains s1 R1 where "r = (s1, Inr R1)" and "f s1 R1 = (s', Inr R')"
  using assms by (cases r; cases "snd r") (auto simp: and_then_def)

lemma append_reporter_Inr:
  "append_reporter s R x = (s', Inr R') \<Longrightarrow> s' = s \<and> length R' = Suc (length R)"
  by (auto simp: append_reporter_def split: sum.splits)

lemma make_state_count:
  "make_state c s R = (s', Inr R') \<Longrightarrow>
     rc_cfg s' = rc_cfg s \<and> length R' = length R + (if rc_cfg s ''state'' = None then 0 else 1)"
  unfolding make_state_def
  by (auto split: option.splits sum.splits dest!: append_reporter_Inr)

lemma make_traj_netcdf_count:
  "make_traj_netcdf c s R = (s', Inr R') \<Longrightarrow>
     rc_cfg s' = rc_cfg s
     \<and> length R' = length R + (if rc_cfg s ''traj_netcdf'' = None then 0 else 1)"
  unfolding make_traj_netcdf_def
  by (auto simp: Let_def split: option.splits sum.splits dest!: append_reporter_Inr)

lemma make_restart_count:
  "make_restart c s R = (s', Inr R') \<Longrightarrow>
     rc_cfg s' = rc_cfg s \<and> length R' = length R + (if rc_cfg s ''restart'' = None then 0 else 1)"
  unfolding make_restart_def
  by (auto split: option.splits sum.splits if_splits dest!: append_reporter_Inr)

lemma make_progress_count:
  "make_progress c s R = (s', Inr R') \<Longrightarrow>
     rc_cfg s' = rc_cfg s \<and> length R' = length R + (if rc_cfg s ''progress'' = None then 0 else 1)"
  unfolding make_progress_def
  by (auto split: option.splits sum.splits dest!: append_reporter_Inr)

lemma make_stream_count:
  "make_stream c s R = (s', Inr R') \<Longrightarrow>
     rc_cfg s' = rc_cfg s \<and> length R' = length R + (if rc_cfg s ''stream'' = None then 0 else 1)"
  unfolding make_stream_def
  by (auto simp: Let_def split: option.splits sum.splits dest!: append_reporter_Inr)

lemma makeReporters_count:
  assumes "makeReporters c s = (s', Inr R)"
  shows "length R = length (filter (\<lambda>k. k \<in> dom (rc_cfg s)) reporter_keys)"
proof -
  from assms obtain s4 R4 where
    r4: "and_then (and_then (and_then (make_state c s []) (make_traj_netcdf c))
           (make_restart c)) (make_progress c) = (s4, Inr R4)"
    and b5: "make_stream c s4 R4 = (s', Inr R)"
    unfolding makeReporters_def by (rule and_then_Inr)
  from r4 obtain s3 R3 where
    r3: "and_then (and_then (make_state c s []) (make_traj_netcdf c)) (make_restart c)
           = (s3, Inr R3)"
    and b4: "make_progress c s3 R3 = (s4, Inr R4)"
    by (rule and_then_Inr)
  from r3 obtain s2 R2 where
    r2: "and_then (make_state c s []) (make_traj_netcdf c) = (s2, Inr R2)"
    and b3: "make_restart c s2 R2 = (s3, Inr R3)"
    by (rule and_then_Inr)
  from r2 obtain s1 R1 where
    b1: "make_state c s [] = (s1, Inr R1)"
    and b2: "make_traj_netcdf c s1 R1 = (s2, Inr R2)"
    by (rule and_then_Inr)
  note c1 = make_state_count [OF b1]
  note c2 = make_traj_netcdf_count [OF b2]
  note c3 = make_restart_count [OF b3]
  note c4 = make_progress_count [OF b4]
  note c5 = make_stream_count [OF b5]
  from c1 c2 c3 c4 c5 show ?thesis
    by (simp add: reporter_keys_def dom_def)
qed

lemma rest_of_blocks:
  assumes "rc_cfg self ''traj_netcdf'' = None"
    "rc_cfg self ''restart'' = None" "rc_cfg self ''progress'' = None"
    "rc_cfg self ''stream'' = None"
  shows "and_then (and_then (and_then (and_then (self, x)
       (make_traj_netcdf c)) (make_restart c)) (make_progress c)) (make_stream c) = (self, x)"
  using assms
  by (cases x) (simp_all add: make_traj_netcdf_absent make_restart_absent
        make_progress_absent make_stream_absent)

text \<open>
  Claim C4, as amended. For a configuration mapping whose only key is \<^verbatim>\<open>state\<close> and
  whose option \<^verbatim>\<open>outfname\<close>, when present, is a string, \<^verbatim>\<open>makeReporters\<close> calls the
  \<^verbatim>\<open>StateDataReporter\<close> constructor once, with the file name made of the option
  \<^verbatim>\<open>outfname\<close> (or, without that option, of the configured prefix) and the extension
  \<^verbatim>\<open>.ene\<close>, and with all the options, \<^verbatim>\<open>outfname\<close> included, as keywords. When the
  constructor returns, the result is the list holding exactly the reporter it built;
  when it raises, the exception leaves \<^verbatim>\<open>makeReporters\<close>. When the option \<^verbatim>\<open>outfname\<close>
  is not a string, \<^verbatim>\<open>makeReporters\<close> ends with \<^verbatim>\<open>TypeError\<close> and no constructor is
  called.
\<close>

theorem makeReporters_state_only:
  assumes "dom (rc_cfg self) = {''state''}" and "rc_cfg self ''state'' = Some options"
  shows "(options ''outfname'' = None \<longrightarrow>
           makeReporters c self =
             (self, case new_StateDataReporter c (rc_outfname self @ ''.ene'') options of
                      Inl e \<Rightarrow> Inl e | Inr state \<Rightarrow> Inr [state]))
       \<and> (options ''outfname'' = Some (PStr name) \<longrightarrow>
           makeReporters c self =
             (self, case new_StateDataReporter c (name @ ''.ene'') options of
                      Inl e \<Rightarrow> Inl e | Inr state \<Rightarrow> Inr [state]))
       \<and> (options ''outfname'' = Some v \<and> v \<notin> range PStr \<longrightarrow>
           makeReporters c self = (self, Inl TypeError))"
proof -
  have "''traj_netcdf'' \<notin> dom (rc_cfg self)" "''restart'' \<notin> dom (rc_cfg self)"
    "''progress'' \<notin> dom (rc_cfg self)" "''stream'' \<notin> dom (rc_cfg self)"
    unfolding assms(1) by simp_all
  then have absent: "rc_cfg self ''traj_netcdf'' = None"
    "rc_cfg self ''restart'' = None" "rc_cfg self ''progress'' = None"
    "rc_cfg self ''stream'' = None"
    by (simp_all add: domIff)
  note rest = rest_of_blocks [OF absent]
  have none: "options ''outfname'' = None \<Longrightarrow>
      make_state c self [] =
        (self, case new_StateDataReporter c (rc_outfname self @ ''.ene'') options of
                 Inl e \<Rightarrow> Inl e | Inr state \<Rightarrow> Inr [state])"
    by (simp add: make_state_def assms(2) file_argument_def append_reporter_def
        split: sum.splits)
  have some: "options ''outfname'' = Some (PStr name) \<Longrightarrow>
      make_state c self [] =
        (self, case new_StateDataReporter c (name @ ''.ene'') options of
                 Inl e \<Rightarrow> Inl e | Inr state \<Rightarrow> Inr [state])"
    by (simp add: make_state_def assms(2) file_argument_def append_reporter_def
        split: sum.splits)
  have other: "options ''outfname'' = Some v \<Longrightarrow> v \<notin> range PStr \<Longrightarrow>
      make_state c self [] = (self, Inl TypeError)"
    by (cases v) (simp_all add: make_state_def assms(2) file_argument_def)
  show ?thesis
    unfolding makeReporters_def
    using none some other by (simp add: rest)
qed

theorem makeReporters_state_only_witness:
  "dom (rc_cfg (ReporterConfig_init ''blues-test'' (state_only interval_250) None)) = {''state''}
   \<and> interval_250 ''outfname'' = None
   \<and> makeReporters strict_constructors
        (ReporterConfig_init ''blues-test'' (state_only interval_250) None)
      = (ReporterConfig_init ''blues-test'' (state_only interval_250) None,
         Inr [''blues-test.ene''])
   \<and> dom (rc_cfg (ReporterConfig_init ''blues-test'' (state_only (outfname_is (PStr ''run1'')))
        None)) = {''state''}
   \<and> outfname_is (PStr ''run1'') ''outfname'' = Some (PStr ''run1'')
   \<and> makeReporters accepting_constructors
        (ReporterConfig_init ''blues-test'' (state_only (outfname_is (PStr ''run1''))) None)
      = (ReporterConfig_init ''blues-test'' (state_only (outfname_is (PStr ''run1''))) None,
         Inr [''run1.ene''])
   \<and> makeReporters strict_constructors
        (ReporterConfig_init ''blues-test'' (state_only (outfname_is (PStr ''run1''))) None)
      = (ReporterConfig_init ''blues-test'' (state_only (outfname_is (PStr ''run1''))) None,
         Inl TypeError)
   \<and> dom (rc_cfg (ReporterConfig_init ''blues-test'' (state_only (outfname_is (PInt 3)))
        None)) = {''state''}
   \<and> outfname_is (PInt 3) ''outfname'' = Some (PInt 3) \<and> PInt 3 \<notin> range PStr
   \<and> makeReporters accepting_constructors
        (ReporterConfig_init ''blues-test'' (state_only (outfname_is (PInt 3))) None)
      = (ReporterConfig_init ''blues-test'' (state_only (outfname_is (PInt 3))) None,
         Inl TypeError)"
  using makeReporters_state_only [where c = strict_constructors
      and self = "ReporterConfig_init ''blues-test'' (state_only interval_250) None"
      and options = interval_250 and name = "''run1''" and v = "PInt 3"]
    makeReporters_state_only [where c = accepting_constructors
      and self = "ReporterConfig_init ''blues-test'' (state_only (outfname_is (PStr ''run1'')))
                    None"
      and options = "outfname_is (PStr ''run1'')" and name = "''run1''" and v = "PInt 3"]
    makeReporters_state_only [where c = strict_constructors
      and self = "ReporterConfig_init ''blues-test'' (state_only (outfname_is (PStr ''run1'')))
                    None"
      and options = "outfname_is (PStr ''run1'')" and name = "''run1''" and v = "PInt 3"]
    makeReporters_state_only [where c = accepting_constructors
      and self = "ReporterConfig_init ''blues-test'' (state_only (outfname_is (PInt 3))) None"
      and options = "outfname_is (PInt 3)" and name = "''run1''" and v = "PInt 3"]
  by (auto simp add: ReporterConfig_init_def state_only_def interval_250_def outfname_is_def
      accepting_constructors_def strict_constructors_def)

text \<open>
  The claim as first stated, one reporter for every mapping whose only key is
  \<^verbatim>\<open>state\<close>, fails for \<^verbatim>\<open>{'state': {'outfname': 3}}\<close>: \<^verbatim>\<open>3 + '.ene'\<close> raises
  \<^verbatim>\<open>TypeError\<close> and no list is returned.
\<close>

theorem makeReporters_state_only_counterexample:
  "dom (rc_cfg (ReporterConfig_init ''blues-test'' (state_only (outfname_is (PInt 3))) None))
     = {''state''}
   \<and> snd (makeReporters accepting_constructors
        (ReporterConfig_init ''blues-test'' (state_only (outfname_is (PInt 3))) None))
     = Inl TypeError"
  by (simp add: ReporterConfig_init_def state_only_def outfname_is_def
      accepting_constructors_def makeReporters_def make_state_def make_traj_netcdf_def
      make_restart_def make_progress_def make_stream_def file_argument_def)

text \<open>
  Claim C6. \<^verbatim>\<open>makeReporters\<close> builds reporters only for the keys \<^verbatim>\<open>state\<close>,
  \<^verbatim>\<open>traj_netcdf\<close>, \<^verbatim>\<open>restart\<close>, \<^verbatim>\<open>progress\<close> and \<^verbatim>\<open>stream\<close>: a mapping with
  none of them yields the empty list and leaves the object unchanged, adding any other
  key to a mapping changes neither the list returned nor the exception raised, and a
  list that is returned has one reporter per recognized key of the mapping.
\<close>

theorem makeReporters_recognized_keys_only:
  "(dom (rc_cfg self) \<inter> set reporter_keys = {} \<longrightarrow> makeReporters c self = (self, Inr []))
   \<and> (key \<notin> set reporter_keys \<longrightarrow>
        snd (makeReporters c (self\<lparr>rc_cfg := (rc_cfg self)(key \<mapsto> options)\<rparr>))
        = snd (makeReporters c self))
   \<and> (snd (makeReporters c self) = Inr Reporters \<longrightarrow>
        length Reporters = length (filter (\<lambda>k. k \<in> dom (rc_cfg self)) reporter_keys))"
proof (intro conjI impI)
  assume "dom (rc_cfg self) \<inter> set reporter_keys = {}"
  then have "rc_cfg self ''state'' = None" "rc_cfg self ''traj_netcdf'' = None"
    "rc_cfg self ''restart'' = None" "rc_cfg self ''progress'' = None"
    "rc_cfg self ''stream'' = None"
    by (auto simp: reporter_keys_def)
  then show "makeReporters c self = (self, Inr [])" by (rule makeReporters_no_keys)
next
  assume "key \<notin> set reporter_keys"
  then have "same_inputs (self\<lparr>rc_cfg := (rc_cfg self)(key \<mapsto> options)\<rparr>) self"
    by (rule same_inputs_other_key)
  then have "agree (makeReporters c (self\<lparr>rc_cfg := (rc_cfg self)(key \<mapsto> options)\<rparr>))
               (makeReporters c self)"
    by (rule makeReporters_agree)
  then show "snd (makeReporters c (self\<lparr>rc_cfg := (rc_cfg self)(key \<mapsto> options)\<rparr>))
             = snd (makeReporters c self)"
    by (simp add: agree_def)
next
  assume "snd (makeReporters c self) = Inr Reporters"
  then have "makeReporters c self = (fst (makeReporters c self), Inr Reporters)"
    by (metis prod.collapse)
  then show "length Reporters = length (filter (\<lambda>k. k \<in> dom (rc_cfg self)) reporter_keys)"
    by (rule makeReporters_count)
qed

theorem makeReporters_recognized_keys_only_witness:
  "dom (rc_cfg (ReporterConfig_init ''blues-test''
          [''trajectory'' \<mapsto> [''reportInterval'' \<mapsto> PInt 250]] None))
     \<inter> set reporter_keys = {}
   \<and> makeReporters
        \<lparr>new_StateDataReporter = (\<lambda>file kw. Inr file),
         new_NetCDF4Reporter = (\<lambda>file kw. Inr file),
         new_RestartReporter = (\<lambda>file netcdf kw. Inr file),
         new_ProgressReporter = (\<lambda>file kw. Inr file),
         new_BLUESStateDataReporter = (\<lambda>logger kw. Inr logger),
         getLogger = ''blues.reporters''\<rparr>
        (ReporterConfig_init ''blues-test''
           [''trajectory'' \<mapsto> [''reportInterval'' \<mapsto> PInt 250]] None)
      = (ReporterConfig_init ''blues-test''
           [''trajectory'' \<mapsto> [''reportInterval'' \<mapsto> PInt 250]] None, Inr [])
   \<and> ''trajectory'' \<notin> set reporter_keys
   \<and> snd (makeReporters
        \<lparr>new_StateDataReporter = (\<lambda>file kw. Inr file),
         new_NetCDF4Reporter = (\<lambda>file kw. Inr file),
         new_RestartReporter = (\<lambda>file netcdf kw. Inr file),
         new_ProgressReporter = (\<lambda>file kw. Inr file),
         new_BLUESStateDataReporter = (\<lambda>logger kw. Inr logger),
         getLogger = ''blues.reporters''\<rparr>
        (ReporterConfig_init ''blues-test''
           [''trajectory'' \<mapsto> [''reportInterval'' \<mapsto> PInt 250]] None)) = Inr []"
  using makeReporters_recognized_keys_only [where
      self = "ReporterConfig_init ''blues-test''
           [''trajectory'' \<mapsto> [''reportInterval'' \<mapsto> PInt 250]] None"
      and key = "''trajectory''" and options = "[''reportInterval'' \<mapsto> PInt 250]"
      and Reporters = "[]"
      and c = "\<lparr>new_StateDataReporter = (\<lambda>file kw. Inr file),
         new_NetCDF4Reporter = (\<lambda>file kw. Inr file),
         new_RestartReporter = (\<lambda>file netcdf kw. Inr file),
         new_ProgressReporter = (\<lambda>file kw. Inr file),
         new_BLUESStateDataReporter = (\<lambda>logger kw. Inr logger),
         getLogger = ''blues.reporters''\<rparr>"]
  by (simp add: ReporterConfig_init_def reporter_keys_def)

section \<open>Headers and values of the state-data reporter\<close>

lemma if_append: "(if b then xs @ [h] else xs) = xs @ (if b then [h] else [])"
  by simp

lemma filter_Cons_append: "filter P (x # xs) = (if P x then [x] else []) @ filter P xs"
  by simp

lemma map_if_single: "map f (if b then [x] else []) = (if b then [f x] else [])"
  by simp

lemma constructHeaders_canonical:
  "BLUESStateDataReporter_constructHeaders self
   = map canonical_header (filter (flag_of self) canonical_columns)"
  unfolding BLUESStateDataReporter_constructHeaders_def canonical_columns_def Let_def
    if_append filter_Cons_append
  by (simp add: map_if_single del: filter.simps)

lemma distinct_canonical_headers: "distinct (map canonical_header canonical_columns)"
  by (simp add: canonical_columns_def)

lemma distinct_canonical_columns: "distinct canonical_columns"
  by (simp add: canonical_columns_def)

lemma collect_Inl: "collect items (Inl e) = Inl e"
  by (induction items) (auto simp: append_value_def)

lemma collect_Inr:
  "collect items (Inr acc) = Inr vs \<Longrightarrow>
     map Inr vs = map Inr acc @ map snd (filter fst items)"
proof (induction items arbitrary: acc)
  case Nil
  then show ?case by simp
next
  case (Cons item items)
  obtain flag expr where item: "item = (flag, expr)" by (cases item)
  show ?case
  proof (cases flag)
    case False
    with Cons item show ?thesis by (simp add: append_value_def)
  next
    case True
    show ?thesis
    proof (cases expr)
      case (Inl e)
      with Cons.prems item True show ?thesis by (simp add: append_value_def collect_Inl)
    next
      case (Inr v)
      with Cons.prems item True have "collect items (Inr (acc @ [v])) = Inr vs"
        by (simp add: append_value_def)
      from Cons.IH [OF this] item True Inr show ?thesis by simp
    qed
  qed
qed

lemma collect_total:
  "\<forall>item \<in> set items. fst item \<longrightarrow> (\<exists>v. snd item = Inr v) \<Longrightarrow>
     \<exists>vs. collect items (Inr acc) = Inr vs"
proof (induction items arbitrary: acc)
  case Nil
  then show ?case by simp
next
  case (Cons item items)
  obtain flag expr where item: "item = (flag, expr)" by (cases item)
  from Cons.prems have rest: "\<forall>item \<in> set items. fst item \<longrightarrow> (\<exists>v. snd item = Inr v)"
    by simp
  show ?case
  proof (cases flag)
    case False
    with item Cons.IH [OF rest] show ?thesis by (simp add: append_value_def)
  next
    case True
    with Cons.prems item obtain v where "expr = Inr v" by auto
    with item True Cons.IH [OF rest] show ?thesis by (simp add: append_value_def)
  qed
qed

lemma map_snd_filter_fst:
  "map snd (filter fst (map (\<lambda>c. (P c, f c)) cs)) = map f (filter P cs)"
  by (induction cs) auto

lemma iter_value:
  "append_value (sd_currentIter self)
     (case sim_currentIter
             (if sd_currentIter self \<and> sim_currentIter simulation = None
              then simulation\<lparr>sim_currentIter := Some 0\<rparr> else simulation) of
        None \<Rightarrow> Inl AttributeError
      | Some i \<Rightarrow> Inr (IntCell i)) acc
   = append_value (sd_currentIter self) (column_value simulation q Col_currentIter) acc"
  by (cases "sd_currentIter self"; cases "sim_currentIter simulation")
     (simp_all add: append_value_def split: sum.splits)

lemma step_value:
  "sim_currentStep (if b then simulation\<lparr>sim_currentIter := Some 0\<rparr> else simulation)
   = sim_currentStep simulation"
  by simp

lemma constructReportValues_collect:
  "fail Op_state = None \<Longrightarrow>
   snd (BLUESStateDataReporter_constructReportValues fail q self simulation)
   = collect (map (\<lambda>c. (flag_of self c, column_value simulation q c)) canonical_columns)
       (Inr [])"
  unfolding BLUESStateDataReporter_constructReportValues_def Let_def
  by (simp add: iter_value [where q = q] step_value canonical_columns_def del: if_split
      cong: if_cong)

text \<open>
  Claim C5. For every combination of the flags, \<^verbatim>\<open>_constructHeaders\<close> returns the
  headers of the enabled columns in the canonical order, one entry per enabled flag, and
  \<^verbatim>\<open>_constructReportValues\<close>, when it returns, lists the values of the same columns in
  the same order: the two lists have the same length and the entry at each position of
  the one belongs to the column at that position of the other. It returns whenever the
  accessors of the state and the expressions of the enabled columns do.
\<close>

theorem headers_and_values_in_canonical_order:
  "BLUESStateDataReporter_constructHeaders self
     = map canonical_header (filter (flag_of self) canonical_columns)
   \<and> distinct canonical_columns
   \<and> distinct (BLUESStateDataReporter_constructHeaders self)
   \<and> (snd (BLUESStateDataReporter_constructReportValues fail q self simulation) = Inr vals
        \<longrightarrow> map Inr vals
              = map (column_value simulation q) (filter (flag_of self) canonical_columns)
            \<and> length vals = length (BLUESStateDataReporter_constructHeaders self))
   \<and> (fail Op_state = None \<and> (\<forall>c. flag_of self c \<longrightarrow> (\<exists>v. q c = Inr v))
        \<longrightarrow> (\<exists>vals.
              snd (BLUESStateDataReporter_constructReportValues fail q self simulation)
              = Inr vals))"
proof (intro conjI impI)
  show h: "BLUESStateDataReporter_constructHeaders self
     = map canonical_header (filter (flag_of self) canonical_columns)"
    by (rule constructHeaders_canonical)
  show "distinct canonical_columns" by (rule distinct_canonical_columns)
  show "distinct (BLUESStateDataReporter_constructHeaders self)"
    unfolding h filter_map [symmetric] comp_def
    using distinct_canonical_headers
    by (metis distinct_map_filter)
next
  assume r: "snd (BLUESStateDataReporter_constructReportValues fail q self simulation)
             = Inr vals"
  have ok: "fail Op_state = None"
  proof (cases "fail Op_state")
    case (Some e)
    with r show ?thesis by (simp add: BLUESStateDataReporter_constructReportValues_def)
  qed simp
  from r have "collect (map (\<lambda>c. (flag_of self c, column_value simulation q c))
                 canonical_columns) (Inr []) = Inr vals"
    using ok by (simp add: constructReportValues_collect)
  from collect_Inr [OF this]
  show m: "map Inr vals
           = map (column_value simulation q) (filter (flag_of self) canonical_columns)"
    by (simp add: map_snd_filter_fst)
  have "length (map Inr vals :: (error + 'a cell) list) = length vals" by simp
  with m show "length vals = length (BLUESStateDataReporter_constructHeaders self)"
    by (simp add: constructHeaders_canonical)
next
  assume a: "fail Op_state = None \<and> (\<forall>c. flag_of self c \<longrightarrow> (\<exists>v. q c = Inr v))"
  have "\<exists>v. column_value simulation q c = Inr v" if "flag_of self c" for c
    using that a by (cases c) simp_all
  then have "\<forall>item \<in> set (map (\<lambda>c. (flag_of self c, column_value simulation q c))
                            canonical_columns).
               fst item \<longrightarrow> (\<exists>v. snd item = Inr v)"
    by auto
  from collect_total [OF this] a
  show "\<exists>vals. snd (BLUESStateDataReporter_constructReportValues fail q self simulation)
              = Inr vals"
    by (simp add: constructReportValues_collect)
qed

theorem headers_and_values_in_canonical_order_witness:
  "snd (BLUESStateDataReporter_constructReportValues no_failure
          (\<lambda>c. Inr (FloatCell ''-1234.5''))
          (BLUESStateDataReporter_init
             \<lparr>lg_calls = [], lg_has_info = True, lg_has_report = False, lg_has_flush = False\<rparr>
             250 [] ''md'' True False True False False False False False False False False
             False [CHR 0x09] None False False True)
          \<lparr>sim_currentStep = 500, sim_currentIter = None\<rparr>)
     = Inr [IntCell 0, IntCell 500, FloatCell ''-1234.5'']
   \<and> BLUESStateDataReporter_constructHeaders
        (BLUESStateDataReporter_init
           \<lparr>lg_calls = [], lg_has_info = True, lg_has_report = False, lg_has_flush = False\<rparr>
           250 [] ''md'' True False True False False False False False False False False
           False [CHR 0x09] None False False True)
     = [''Iter'', ''Step'', ''Potential Energy (kJ/mole)'']
   \<and> length [IntCell 0, IntCell 500, FloatCell ''-1234.5'']
     = length (BLUESStateDataReporter_constructHeaders
        (BLUESStateDataReporter_init
           \<lparr>lg_calls = [], lg_has_info = True, lg_has_report = False, lg_has_flush = False\<rparr>
           250 [] ''md'' True False True False False False False False False False False
           False [CHR 0x09] None False False True))
   \<and> no_failure Op_state = None
   \<and> (\<forall>c. \<exists>v. (\<lambda>c. Inr (FloatCell ''-1234.5'') :: error + string cell) c = Inr v)"
  using headers_and_values_in_canonical_order [where fail = no_failure
      and q = "\<lambda>c. Inr (FloatCell ''-1234.5'')"
      and simulation = "\<lparr>sim_currentStep = 500, sim_currentIter = None\<rparr>"
      and vals = "[IntCell 0, IntCell 500, FloatCell ''-1234.5'']"
      and self = "BLUESStateDataReporter_init
           \<lparr>lg_calls = [], lg_has_info = True, lg_has_report = False, lg_has_flush = False\<rparr>
           250 [] ''md'' True False True False False False False False False False False
           False [CHR 0x09] None False False True"]
  by (simp add: BLUESStateDataReporter_constructReportValues_def
      BLUESStateDataReporter_constructHeaders_def BLUESStateDataReporter_init_def
      no_failure_def append_value_def Let_def canonical_columns_def)

section \<open>The write-on-report protocol\<close>

subsection \<open>The one-time initialization\<close>

















subsection \<open>Writing and flushing\<close>






























end
